theory Spec2Isabelle
  imports Complex_Main
begin

unbundle bit_operations_syntax

section \<open>Python values, exceptions and the file object\<close>

text \<open>
  The module \<^verbatim>\<open>waveio.py\<close> is Python 2 code: a \<^verbatim>\<open>str\<close> is a byte string, modelled
  as \<^typ>\<open>string\<close> (a list of 8-bit \<^typ>\<open>char\<close>s); integers are unbounded (\<^typ>\<open>int\<close>);
  file offsets and unsigned header fields are \<^typ>\<open>nat\<close>. Every \<^verbatim>\<open>raise\<close> of the module
  and every exception of a library call it makes is a value of \<open>error\<close>, carrying the
  exception class and the message (the operands of a \<^verbatim>\<open>%s\<close> are not rendered).
\<close>

datatype error =
    ValueError string
  | IndexError string
  | TypeError string
  | AttributeError string
  | ZeroDivisionError string
  | UnboundLocalError string
  | OverflowError string
  | IOError string
  | struct_error string

text \<open>
  A seekable binary file object: its bytes, its position, and the calls made on it so far
  (oldest first). Reading at or past the end returns fewer bytes; writing past the end fills
  the gap with zero bytes, writing inside overwrites.
\<close>

datatype io_op = Op_seek nat | Op_read nat | Op_write string

record pyfile =
  content :: string
  pos :: nat
  io_log :: "io_op list"

definition new_file :: pyfile where
  "new_file = \<lparr>content = [], pos = 0, io_log = []\<rparr>"

definition file_seek :: "nat \<Rightarrow> pyfile \<Rightarrow> pyfile" where
  "file_seek p fo = fo\<lparr>pos := p, io_log := io_log fo @ [Op_seek p]\<rparr>"

definition file_read :: "nat \<Rightarrow> pyfile \<Rightarrow> string \<times> pyfile" where
  "file_read n fo =
     (let s = take n (drop (pos fo) (content fo))
      in (s, fo\<lparr>pos := pos fo + length s, io_log := io_log fo @ [Op_read n]\<rparr>))"

definition file_write :: "string \<Rightarrow> pyfile \<Rightarrow> pyfile" where
  "file_write s fo =
     (let c = content fo; p = pos fo;
          c' = (if s = [] then c
                else take p c @ replicate (p - length c) (CHR 0x00) @ s @ drop (p + length s) c)
      in fo\<lparr>content := c', pos := p + length s, io_log := io_log fo @ [Op_write s]\<rparr>)"

text \<open>The one file object of a reader or writer lives outside it; the object holds a handle.\<close>

datatype fileref = FileRef

subsection \<open>The \<^verbatim>\<open>struct\<close> module, little-endian\<close>

fun le_bytes :: "nat \<Rightarrow> int \<Rightarrow> string" where
  "le_bytes 0 x = []"
| "le_bytes (Suc n) x = char_of x # le_bytes n (x div 256)"

fun le_val :: "string \<Rightarrow> nat" where
  "le_val [] = 0"
| "le_val (c # cs) = of_char c + 256 * le_val cs"

definition signed16 :: "nat \<Rightarrow> int" where
  "signed16 u = (if u \<ge> 32768 then int u - 65536 else int u)"

text \<open>\<^verbatim>\<open>struct.pack\<close> of one \<^verbatim>\<open>L\<close> (unsigned 32 bit) or \<^verbatim>\<open>h\<close> (signed 16 bit) field.\<close>

definition pack_L :: "int \<Rightarrow> error + string" where
  "pack_L x = (if 0 \<le> x \<and> x < 4294967296 then Inr (le_bytes 4 x)
               else Inl (struct_error ''integer out of range for L format code''))"

definition pack_h :: "int \<Rightarrow> error + string" where
  "pack_h x = (if -32768 \<le> x \<and> x \<le> 32767 then Inr (le_bytes 2 x)
               else Inl (struct_error ''short format requires SHRT_MIN <= number <= SHRT_MAX''))"

text \<open>A format of several fields packs them in order; the first bad field raises.\<close>

fun pack_fields :: "(error + string) list \<Rightarrow> error + string" where
  "pack_fields [] = Inr []"
| "pack_fields (p # ps) =
     (case p of Inl e \<Rightarrow> Inl e
      | Inr s \<Rightarrow> (case pack_fields ps of Inl e \<Rightarrow> Inl e | Inr t \<Rightarrow> Inr (s @ t)))"

text \<open>\<^verbatim>\<open>struct.unpack\<close> raises unless the string has exactly the size of the format.\<close>

definition unpack_size_error :: error where
  "unpack_size_error = struct_error ''unpack requires a string argument of the right length''"

definition unpack_4sL4s :: "string \<Rightarrow> error + string \<times> nat \<times> string" where
  "unpack_4sL4s s =
     (if length s \<noteq> 12 then Inl unpack_size_error
      else Inr (take 4 s, le_val (take 4 (drop 4 s)), drop 8 s))"

definition unpack_4sL :: "string \<Rightarrow> error + string \<times> nat" where
  "unpack_4sL s =
     (if length s \<noteq> 8 then Inl unpack_size_error
      else Inr (take 4 s, le_val (drop 4 s)))"

definition unpack_HHLL3H :: "string \<Rightarrow> error + nat \<times> nat \<times> nat \<times> nat \<times> nat \<times> nat \<times> nat" where
  "unpack_HHLL3H s =
     (if length s \<noteq> 18 then Inl unpack_size_error
      else Inr (le_val (take 2 s), le_val (take 2 (drop 2 s)), le_val (take 4 (drop 4 s)),
                le_val (take 4 (drop 8 s)), le_val (take 2 (drop 12 s)),
                le_val (take 2 (drop 14 s)), le_val (take 2 (drop 16 s))))"

definition unpack_h :: "string \<Rightarrow> error + int" where
  "unpack_h s = (if length s \<noteq> 2 then Inl unpack_size_error else Inr (signed16 (le_val s)))"

definition unpack_2h :: "string \<Rightarrow> error + int \<times> int" where
  "unpack_2h s =
     (if length s \<noteq> 4 then Inl unpack_size_error
      else Inr (signed16 (le_val (take 2 s)), signed16 (le_val (drop 2 s))))"

subsection \<open>numpy arrays and Python sequences\<close>

text \<open>
  An array is its shape and its elements in row-major order. Elements of an \<^verbatim>\<open>int16\<close>,
  \<^verbatim>\<open>int32\<close> or \<^verbatim>\<open>uint8\<close> array are kept as \<^typ>\<open>int\<close>s; arithmetic on an \<^verbatim>\<open>int16\<close> array
  wraps around, written out with \<open>wrap16\<close>.
\<close>

record 'a ndarray =
  nd_shape :: "nat list"
  nd_items :: "'a list"

definition wrap16 :: "int \<Rightarrow> int" where
  "wrap16 x = (x + 32768) mod 65536 - 32768"

definition is_int16 :: "int \<Rightarrow> bool" where
  "is_int16 x \<longleftrightarrow> -32768 \<le> x \<and> x \<le> 32767"

text \<open>
  What a caller can pass as samples: an integer, a (nested) list or tuple, or a numpy
  array of dtype \<^verbatim>\<open>int16\<close>; and what a reader returns: an integer or an \<^verbatim>\<open>int16\<close> array.
\<close>

datatype pyval = PyInt int | PySeq "pyval list" | NdInt16 "int ndarray"

definition valid_int16_array :: "int ndarray \<Rightarrow> bool" where
  "valid_int16_array a \<longleftrightarrow> length (nd_items a) = prod_list (nd_shape a) \<and> list_all is_int16 (nd_items a)"

definition len :: "pyval \<Rightarrow> error + int" where
  "len v = (case v of
      PyInt i \<Rightarrow> Inl (TypeError ''object of type 'int' has no len()'')
    | PySeq xs \<Rightarrow> Inr (int (length xs))
    | NdInt16 a \<Rightarrow> (case nd_shape a of [] \<Rightarrow> Inl (TypeError ''len() of unsized object'')
                                   | n # ns \<Rightarrow> Inr (int n)))"

text \<open>
  \<^verbatim>\<open>np.asarray(val, np.int32)\<close>: the shape is that of the nesting; a ragged nesting
  raises. The conversion of an integer outside the 32-bit range depends on the platform
  (it raises or wraps); the model raises.
\<close>

definition stack :: "int ndarray list \<Rightarrow> error + int ndarray" where
  "stack as =
     (case as of
        [] \<Rightarrow> Inr \<lparr>nd_shape = [0], nd_items = []\<rparr>
      | a # bs \<Rightarrow>
          if list_all (\<lambda>b. nd_shape b = nd_shape a) bs
          then Inr \<lparr>nd_shape = length as # nd_shape a, nd_items = concat (map nd_items as)\<rparr>
          else Inl (ValueError ''setting an array element with a sequence.''))"

fun asarray_int32 :: "pyval \<Rightarrow> error + int ndarray"
  and asarray_seq :: "pyval list \<Rightarrow> error + int ndarray list" where
  "asarray_int32 (PyInt i) =
     (if -2147483648 \<le> i \<and> i \<le> 2147483647 then Inr \<lparr>nd_shape = [], nd_items = [i]\<rparr>
      else Inl (OverflowError ''Python int too large to convert to C long''))"
| "asarray_int32 (NdInt16 a) = Inr a"
| "asarray_int32 (PySeq xs) =
     (case asarray_seq xs of Inl e \<Rightarrow> Inl e | Inr as \<Rightarrow> stack as)"
| "asarray_seq [] = Inr []"
| "asarray_seq (x # xs) =
     (case asarray_int32 x of Inl e \<Rightarrow> Inl e
      | Inr a \<Rightarrow> (case asarray_seq xs of Inl e \<Rightarrow> Inl e | Inr as \<Rightarrow> Inr (a # as)))"

definition clip :: "int \<Rightarrow> int \<Rightarrow> int \<Rightarrow> int" where
  "clip x lo hi = min (max x lo) hi"

text \<open>\<^verbatim>\<open>np.fromstring(s, np.uint8)\<close> and \<^verbatim>\<open>np.fromstring(s, np.int16)\<close> (little-endian host).\<close>

definition fromstring_uint8 :: "string \<Rightarrow> int ndarray" where
  "fromstring_uint8 s = \<lparr>nd_shape = [length s], nd_items = map of_char s\<rparr>"

fun int16_items :: "string \<Rightarrow> int list" where
  "int16_items (a # b # cs) = signed16 (le_val [a, b]) # int16_items cs"
| "int16_items cs = []"

definition fromstring_int16 :: "string \<Rightarrow> error + int ndarray" where
  "fromstring_int16 s =
     (if length s mod 2 \<noteq> 0
      then Inl (ValueError ''string size must be a multiple of element size'')
      else Inr \<lparr>nd_shape = [length s div 2], nd_items = int16_items s\<rparr>)"

text \<open>Assigning \<^verbatim>\<open>a.shape = (n, 2)\<close> raises unless the array has \<open>2 * n\<close> elements.\<close>

definition set_shape_n2 :: "int ndarray \<Rightarrow> nat \<Rightarrow> error + int ndarray" where
  "set_shape_n2 a n =
     (if length (nd_items a) = n * 2 then Inr (a\<lparr>nd_shape := [n, 2]\<rparr>)
      else Inl (ValueError ''total size of new array must be unchanged''))"

text \<open>\<^verbatim>\<open>tostring()\<close> of a \<^verbatim>\<open>uint8\<close> and of an \<^verbatim>\<open>int16\<close> array (little-endian host).\<close>

definition tostring_uint8 :: "int list \<Rightarrow> string" where
  "tostring_uint8 xs = map char_of xs"

definition tostring_int16 :: "int list \<Rightarrow> string" where
  "tostring_int16 xs = concat (map (le_bytes 2) xs)"


section \<open>Reading: \<^verbatim>\<open>RiffReader\<close> and \<^verbatim>\<open>WaveFileReader\<close>\<close>

type_synonym chunk = "string \<times> nat \<times> nat"

record RiffReader =
  f :: fileref
  file_length :: nat
  RIFFtype :: string
  chunklist :: "chunk list"

text \<open>\<^verbatim>\<open>%r\<close> of a string of printable characters other than quote and backslash.\<close>

definition repr :: "string \<Rightarrow> string" where
  "repr s = [CHR 0x27] @ s @ [CHR 0x27]"

text \<open>\<^verbatim>\<open>(chklen + 1) & ~1\<close>\<close>

definition pad_even :: "nat \<Rightarrow> nat" where
  "pad_even chklen = nat ((int chklen + 1) AND NOT 1)"

text \<open>
  The \<^verbatim>\<open>while nextpos < length\<close> loop of \<^verbatim>\<open>RiffReader.__init__\<close>. \<open>pos'\<close> is the
  loop's own count of where the file position is, \<open>nextpos\<close> where the next chunk header
  starts. Each round moves \<open>nextpos\<close> forward by at least 8, so the loop ends.
\<close>

function scan_chunks ::
  "nat \<Rightarrow> pyfile \<Rightarrow> nat \<Rightarrow> nat \<Rightarrow> chunk list \<Rightarrow> (error + chunk list) \<times> pyfile" where
  "scan_chunks length' fo pos' nextpos chunklist' =
     (if nextpos < length' then
        (if nextpos \<noteq> pos' \<and> nextpos < pos' then (Inl (ValueError ''bad chunk length''), fo)
         else
           (let fo1 = (if nextpos \<noteq> pos' then file_seek nextpos fo else fo);
                pos1 = (if nextpos \<noteq> pos' then nextpos else pos');
                rd = file_read 8 fo1;
                pos2 = pos1 + 8
            in case unpack_4sL (fst rd) of
                 Inl e \<Rightarrow> (Inl e, snd rd)
               | Inr (chktype, chklen) \<Rightarrow>
                   scan_chunks length' (snd rd) pos2 (pos2 + pad_even chklen)
                     (chunklist' @ [(chktype, pos2, chklen)])))
      else (Inr chunklist', fo))"
  by pat_completeness auto
termination
  by (relation "measure (\<lambda>(length', fo, pos', nextpos, chunklist'). length' - nextpos)") auto

declare scan_chunks.simps [simp del]

definition RiffReader_init :: "string option \<Rightarrow> pyfile \<Rightarrow> (error + RiffReader) \<times> pyfile" where
  "RiffReader_init expected_RIFFtype fin =
     (let rd = file_read 12 fin
      in case unpack_4sL4s (fst rd) of
           Inl e \<Rightarrow> (Inl e, snd rd)
         | Inr (s1, length', s2) \<Rightarrow>
             if expected_RIFFtype \<noteq> None \<and> expected_RIFFtype \<noteq> Some s2
             then (Inl (ValueError (''expecting RIFF type '' @ repr (the expected_RIFFtype)
                                     @ '', got '' @ repr s2)), snd rd)
             else if s1 \<noteq> ''RIFF'' then (Inl (ValueError ''RIFF header not found''), snd rd)
             else (case scan_chunks length' (snd rd) 12 12 [] of
                     (Inl e, fo) \<Rightarrow> (Inl e, fo)
                   | (Inr cl, fo) \<Rightarrow>
                       (Inr \<lparr>f = FileRef, file_length = length', RIFFtype = s2, chunklist = cl\<rparr>,
                        fo)))"

fun find_chunk :: "chunk list \<Rightarrow> string \<Rightarrow> error + chunk" where
  "find_chunk [] chktype = Inl (ValueError (''chunk type '' @ repr chktype @ '' not found''))"
| "find_chunk (p # ps) chktype = (if fst p = chktype then Inr p else find_chunk ps chktype)"

definition find_chunk_data :: "'a RiffReader_scheme \<Rightarrow> string \<Rightarrow> error + chunk" where
  "find_chunk_data self chktype = find_chunk (chunklist self) chktype"

definition get_chunk_data ::
  "'a RiffReader_scheme \<Rightarrow> string \<Rightarrow> pyfile \<Rightarrow> (error + string) \<times> pyfile" where
  "get_chunk_data self chktype fo =
     (case find_chunk_data self chktype of
        Inl e \<Rightarrow> (Inl e, fo)
      | Inr (t, p1, p2) \<Rightarrow> (let rd = file_read p2 (file_seek p1 fo) in (Inr (fst rd), snd rd)))"

subsection \<open>The decoders\<close>

definition dec_8_mono :: "string \<Rightarrow> error + pyval" where
  "dec_8_mono s =
     (case s of
        [c] \<Rightarrow> Inr (PyInt ((of_char c - 128) * 256))
      | _ \<Rightarrow> Inl (TypeError ''ord() expected a character''))"

definition dec_8_stereo :: "string \<Rightarrow> error + pyval" where
  "dec_8_stereo s =
     (case s of
        r0 # r1 # rest \<Rightarrow>
          Inr (NdInt16 \<lparr>nd_shape = [2],
                        nd_items = [(of_char r0 - 128) * 256, (of_char r1 - 128) * 256]\<rparr>)
      | _ \<Rightarrow> Inl (IndexError ''list index out of range''))"

text \<open>\<^verbatim>\<open>(a.astype(np.int16) - 128) * 256\<close>, elementwise in 16 bits.\<close>

definition dec8 :: "int \<Rightarrow> int" where
  "dec8 b = wrap16 (wrap16 (b - 128) * 256)"

definition dec_8_mono_arr :: "string \<Rightarrow> nat \<Rightarrow> error + pyval" where
  "dec_8_mono_arr s n =
     (let a = fromstring_uint8 s in Inr (NdInt16 (a\<lparr>nd_items := map dec8 (nd_items a)\<rparr>)))"

definition dec_8_stereo_arr :: "string \<Rightarrow> nat \<Rightarrow> error + pyval" where
  "dec_8_stereo_arr s n =
     (case set_shape_n2 (fromstring_uint8 s) n of
        Inl e \<Rightarrow> Inl e
      | Inr a \<Rightarrow> Inr (NdInt16 (a\<lparr>nd_items := map dec8 (nd_items a)\<rparr>)))"

definition dec_16_mono :: "string \<Rightarrow> error + pyval" where
  "dec_16_mono s = (case unpack_h s of Inl e \<Rightarrow> Inl e | Inr v \<Rightarrow> Inr (PyInt v))"

definition dec_16_stereo :: "string \<Rightarrow> error + pyval" where
  "dec_16_stereo s =
     (case unpack_2h s of
        Inl e \<Rightarrow> Inl e
      | Inr (a, b) \<Rightarrow> Inr (NdInt16 \<lparr>nd_shape = [2], nd_items = [a, b]\<rparr>))"

text \<open>The array decoders of a little-endian host (\<^verbatim>\<open>Need_byte_swap\<close> is false).\<close>

definition dec_16_mono_arr :: "string \<Rightarrow> nat \<Rightarrow> error + pyval" where
  "dec_16_mono_arr s n =
     (case fromstring_int16 s of Inl e \<Rightarrow> Inl e | Inr a \<Rightarrow> Inr (NdInt16 a))"

definition dec_16_stereo_arr :: "string \<Rightarrow> nat \<Rightarrow> error + pyval" where
  "dec_16_stereo_arr s n =
     (case fromstring_int16 s of
        Inl e \<Rightarrow> Inl e
      | Inr a \<Rightarrow> (case set_shape_n2 a n of Inl e \<Rightarrow> Inl e | Inr b \<Rightarrow> Inr (NdInt16 b)))"


subsection \<open>\<^verbatim>\<open>WaveFileReader\<close>\<close>

text \<open>
  \<open>duration\<close> is a Python float; the model keeps the exact quotient and the division by
  zero that \<^verbatim>\<open>sample_count / float(samp_rate)\<close> raises, not the rounding.
\<close>

record WaveFileReader = RiffReader +
  nchans :: nat
  bits_per_samp :: nat
  bytes_per_frame :: nat
  sample_rate :: nat
  sample_count :: nat
  datapos :: nat
  databytes :: nat
  duration :: rat
  samp_decoder :: "string \<Rightarrow> error + pyval"
  arr_decoder :: "string \<Rightarrow> nat \<Rightarrow> error + pyval"
  shape :: "nat list"

definition WaveFileReader_init :: "pyfile \<Rightarrow> (error + WaveFileReader) \<times> pyfile" where
  "WaveFileReader_init fin =
     (case RiffReader_init (Some ''WAVE'') fin of
        (Inl e, fo) \<Rightarrow> (Inl e, fo)
      | (Inr r, fo) \<Rightarrow>
     (case get_chunk_data r ''fmt '' fo of
        (Inl e, fo1) \<Rightarrow> (Inl e, fo1)
      | (Inr dat0, fo1) \<Rightarrow>
     (let dat = (if length dat0 = 16 then dat0 @ [CHR 0x00, CHR 0x00] else dat0)
      in case unpack_HHLL3H (take 18 dat) of
        Inl e \<Rightarrow> (Inl e, fo1)
      | Inr (comp_code, nchans', samp_rate, byte_per_sec, blk_align, bits_per_samp',
             extra_bytes) \<Rightarrow>
     if comp_code \<noteq> 1 \<or> nchans' \<notin> {1, 2} \<or> \<not> (8 \<le> bits_per_samp' \<and> bits_per_samp' \<le> 16)
     then (Inl (ValueError ''unsupported RIFF format''), fo1)
     else
     (let bytes_per_frame' = nchans' * (1 + (if bits_per_samp' > 8 then 1 else 0))
      in case find_chunk_data r ''data'' of
        Inl e \<Rightarrow> (Inl e, fo1)
      | Inr (tmp, datapos', databytes') \<Rightarrow>
     (let sample_count' = databytes' div bytes_per_frame'
      in if samp_rate = 0 then (Inl (ZeroDivisionError ''float division by zero''), fo1)
     else
     (case (if bits_per_samp' = 8
            then (if nchans' = 2 then Inr (dec_8_stereo, dec_8_stereo_arr)
                  else Inr (dec_8_mono, dec_8_mono_arr))
            else if bits_per_samp' = 16
            then (if nchans' = 2 then Inr (dec_16_stereo, dec_16_stereo_arr)
                  else Inr (dec_16_mono, dec_16_mono_arr))
            else Inl (UnboundLocalError
                        ''local variable 'sdec' referenced before assignment'')) of
        Inl e \<Rightarrow> (Inl e, fo1)
      | Inr (sdec, adec) \<Rightarrow>
          (Inr (RiffReader.extend r
                 (WaveFileReader.fields nchans' bits_per_samp' bytes_per_frame' samp_rate
                    sample_count' datapos' databytes'
                    (Fract (int sample_count') (int samp_rate)) sdec adec
                    (if nchans' = 2 then [sample_count', 2] else [sample_count']))),
           fo1)))))))"

text \<open>
  What can index a reader or a writer: a slice (each part may be \<^verbatim>\<open>None\<close>), an integer,
  or something else.
\<close>

datatype index = Slice "int option" "int option" "int option" | Index int | OtherIndex

text \<open>\<^verbatim>\<open>slice(start, stop, step).indices(length)\<close>, as CPython computes it.\<close>

definition slice_bound :: "int option \<Rightarrow> int \<Rightarrow> int \<Rightarrow> int \<Rightarrow> int" where
  "slice_bound b dflt step length' =
     (case b of
        None \<Rightarrow> dflt
      | Some v \<Rightarrow>
          (let v1 = (if v < 0 then v + length' else v);
               v2 = (if v1 < 0 then (if step < 0 then -1 else 0) else v1)
           in if v2 \<ge> length' then (if step < 0 then length' - 1 else length') else v2))"

definition slice_indices ::
  "int option \<Rightarrow> int option \<Rightarrow> int option \<Rightarrow> int \<Rightarrow> error + int \<times> int \<times> int" where
  "slice_indices start stop step length' =
     (let step1 = (case step of None \<Rightarrow> 1 | Some s \<Rightarrow> s)
      in if step1 = 0 then Inl (ValueError ''slice step cannot be zero'')
         else Inr (slice_bound start (if step1 < 0 then length' - 1 else 0) step1 length',
                   slice_bound stop (if step1 < 0 then -1 else length') step1 length',
                   step1))"

definition getitem :: "WaveFileReader \<Rightarrow> index \<Rightarrow> pyfile \<Rightarrow> (error + pyval) \<times> pyfile" where
  "getitem self slc fo =
     (let n = sample_count self; nf = bytes_per_frame self
      in case slc of
           Slice a b c \<Rightarrow>
             (case slice_indices a b c (int (sample_count self)) of
                Inl e \<Rightarrow> (Inl e, fo)
              | Inr (start, stop, stride) \<Rightarrow>
                  if stride \<noteq> 1 then (Inl (ValueError ''stride must be 1''), fo)
                  else
                    (let recs = max 0 (stop - start)
                     in if recs \<noteq> 0
                        then (let rd = file_read (nat recs * nf)
                                         (file_seek (datapos self + nf * nat start) fo)
                              in (arr_decoder self (fst rd) (nat recs), snd rd))
                        else (arr_decoder self [] (nat recs), fo)))
         | Index i0 \<Rightarrow>
             (let i = (if i0 < 0 then i0 + int n else i0)
              in if \<not> (0 \<le> i \<and> i < int n) then (Inl (IndexError []), fo)
                 else (let rd = file_read nf (file_seek (datapos self + nf * nat i) fo)
                       in (samp_decoder self (fst rd), snd rd)))
         | OtherIndex \<Rightarrow> (Inl (TypeError ''int() argument must be a string or a number''), fo))"

section \<open>Writing: \<^verbatim>\<open>WaveFileWriter\<close>\<close>

text \<open>
  \<open>f\<close> is the handle of the output file, \<^verbatim>\<open>None\<close> once the writer is closed; the file
  object itself is passed to and returned by every method.
\<close>

record WaveFileWriter =
  nchans :: int
  f :: "fileref option"
  bits_per_samp :: int
  bytes_per_frame :: int
  sample_rate :: int
  datapos :: nat
  curindex :: int

text \<open>
  \<^verbatim>\<open>WaveFileWriter.__init__(fout, refobj, **kw)\<close>. \<open>refobj\<close> gives the three attributes
  read from a reference object (\<^verbatim>\<open>bits_per_samp\<close>, \<^verbatim>\<open>nchans\<close>, \<^verbatim>\<open>sample_rate\<close>); \<open>kw\<close> is the
  keyword dictionary, its keys in the order \<^verbatim>\<open>kw.keys()\<close> lists them. \<open>fout\<close> is the file
  object (for a file name, the empty file that \<^verbatim>\<open>open(fout, 'wb')\<close> creates).
\<close>

definition join_keys :: "string list \<Rightarrow> string" where
  "join_keys ks = (case ks of [] \<Rightarrow> [] | k # r \<Rightarrow> foldl (\<lambda>a b. a @ '' '' @ b) k r)"

definition WaveFileWriter_init ::
  "pyfile \<Rightarrow> (int \<times> int \<times> int) option \<Rightarrow> (string \<times> int) list \<Rightarrow> (error + WaveFileWriter) \<times> pyfile"
  where
  "WaveFileWriter_init fout refobj kw =
     (let dflt = (case refobj of Some r \<Rightarrow> r | None \<Rightarrow> (16, 1, 44100));
          bits_per_samp' = (case map_of kw ''bits_per_samp'' of
                              Some v \<Rightarrow> v | None \<Rightarrow> fst dflt);
          nchans' = (case map_of kw ''nchans'' of Some v \<Rightarrow> v | None \<Rightarrow> fst (snd dflt));
          sample_rate' = (case map_of kw ''sample_rate'' of
                            Some v \<Rightarrow> v | None \<Rightarrow> snd (snd dflt));
          rest = filter (\<lambda>k. k \<notin> {''bits_per_samp'', ''nchans'', ''sample_rate''}) (map fst kw)
      in if rest \<noteq> [] then (Inl (ValueError (''unknown paramaters: '' @ join_keys rest)), fout)
         else if nchans' \<notin> {1, 2} \<or> \<not> (8 \<le> bits_per_samp' \<and> bits_per_samp' \<le> 16)
         then (Inl (ValueError ''bad nchans or bits_per_samp''), fout)
         else
           (let bpf = (if bits_per_samp' > 8 then nchans' * 2 else nchans');
                fo1 = file_write ''RIFFxxxxWAVEfmt '' fout
            in case pack_fields [pack_L 16, pack_h 1, pack_h nchans', pack_L sample_rate',
                                 pack_L (sample_rate' * bpf), pack_h bpf, pack_h bits_per_samp'] of
                 Inl e \<Rightarrow> (Inl e, fo1)
               | Inr d \<Rightarrow>
                   (let fo2 = file_write d fo1;
                        d' = ''fact'' @ [CHR 0x04, CHR 0x00, CHR 0x00, CHR 0x00] @ ''xxxxdataxxxx'';
                        fo3 = file_write d' fo2
                    in (Inr \<lparr>nchans = nchans', f = Some FileRef, bits_per_samp = bits_per_samp',
                             bytes_per_frame = bpf, sample_rate = sample_rate',
                             datapos = 16 + length d + length d', curindex = 0\<rparr>,
                        fo3))))"

text \<open>
  \<^verbatim>\<open>close()\<close>: returns at once on a closed writer; otherwise packs the three length fields
  (which raises if one does not fit 32 bits), writes them over the placeholders and sets
  \<^verbatim>\<open>self.f = None\<close>. A seek to a negative offset raises.
\<close>

definition close ::
  "WaveFileWriter \<Rightarrow> pyfile \<Rightarrow> (error + unit) \<times> WaveFileWriter \<times> pyfile" where
  "close self fo =
     (case f self of
        None \<Rightarrow> (Inr (), self, fo)
      | Some h \<Rightarrow>
          (let n = curindex self; p = datapos self; dlen = bytes_per_frame self * n
           in case pack_fields [pack_L n, Inr ''data'', pack_L dlen] of
                Inl e \<Rightarrow> (Inl e, self, fo)
              | Inr d2 \<Rightarrow>
                  (case pack_L (dlen + int p - 8) of
                     Inl e \<Rightarrow> (Inl e, self, fo)
                   | Inr d1 \<Rightarrow>
                       (let fo1 = file_write d1 (file_seek 4 fo)
                        in if p < 12 then (Inl (IOError ''[Errno 22] Invalid argument''), self, fo1)
                           else (Inr (), self\<lparr>f := None\<rparr>,
                                 file_write d2 (file_seek (p - 12) fo1))))))"

text \<open>The 8-bit conversion \<^verbatim>\<open>(((val+128)>>8)+128).astype(np.uint8)\<close> of one \<^verbatim>\<open>int16\<close> element.\<close>

definition enc8 :: "int \<Rightarrow> int" where
  "enc8 v = wrap16 (drop_bit 8 (wrap16 (v + 128)) + 128) mod 256"

text \<open>
  Lines 378 to 392 of \<^verbatim>\<open>__setitem__\<close>: the index gives \<open>start\<close>, \<open>stop\<close> (possibly
  \<^verbatim>\<open>None\<close>) and the value to store.
\<close>

definition setitem_range :: "index \<Rightarrow> pyval \<Rightarrow> error + int \<times> int option \<times> pyval" where
  "setitem_range slc val =
     (case (case slc of
              Slice start stop step \<Rightarrow>
                if step \<noteq> None \<and> step \<noteq> Some 1 then Inl (IndexError ''slice step must be 1'')
                else Inr (case start of None \<Rightarrow> 0 | Some s \<Rightarrow> s, stop, val)
            | Index i \<Rightarrow> Inr (i, Some (i + 1), PySeq [val])
            | OtherIndex \<Rightarrow> Inl (IndexError ''bad index'')) of
        Inl e \<Rightarrow> Inl e
      | Inr (start, stop, val') \<Rightarrow>
          if start < 0 \<or> (stop \<noteq> None \<and> the stop < start)
          then Inl (IndexError ''invalid slice parameters'')
          else Inr (start, stop, val'))"

text \<open>Lines 394 to 398: an open \<open>stop\<close> is inferred, a given one must fit the length.\<close>

definition setitem_stop :: "int \<Rightarrow> int option \<Rightarrow> pyval \<Rightarrow> error + int" where
  "setitem_stop start stop val =
     (case stop of
        None \<Rightarrow> (case len val of Inl e \<Rightarrow> Inl e | Inr n \<Rightarrow> Inr (start + n))
      | Some st \<Rightarrow>
          (case len val of
             Inl e \<Rightarrow> Inl e
           | Inr n \<Rightarrow> if n + start \<noteq> st then Inl (ValueError ''size mismatch in slice assignment'')
                      else Inr st))"

text \<open>Lines 407 to 409: anything but an \<^verbatim>\<open>int16\<close> array is converted and saturated.\<close>

definition to_int16 :: "pyval \<Rightarrow> error + int ndarray" where
  "to_int16 val =
     (case val of
        NdInt16 a \<Rightarrow> Inr a
      | _ \<Rightarrow> (case asarray_int32 val of
                Inl e \<Rightarrow> Inl e
              | Inr a \<Rightarrow> Inr (a\<lparr>nd_items := map (\<lambda>x. clip x (-32768) 32767) (nd_items a)\<rparr>)))"

text \<open>Lines 422 to 428: the bytes of the array for the writer's bit depth.\<close>

definition encode :: "int \<Rightarrow> int ndarray \<Rightarrow> string" where
  "encode bits val =
     (if bits = 8 then tostring_uint8 (map enc8 (nd_items val)) else tostring_int16 (nd_items val))"

definition setitem ::
  "WaveFileWriter \<Rightarrow> index \<Rightarrow> pyval \<Rightarrow> pyfile \<Rightarrow> (error + unit) \<times> WaveFileWriter \<times> pyfile" where
  "setitem self slc val0 fo =
     (case setitem_range slc val0 of
        Inl e \<Rightarrow> (Inl e, self, fo)
      | Inr (start, stop0, val) \<Rightarrow>
     (case setitem_stop start stop0 val of
        Inl e \<Rightarrow> (Inl e, self, fo)
      | Inr stop \<Rightarrow>
     if curindex self \<noteq> start
     then (Inl (ValueError ''WaveFileWriter assignments must be in seq''), self, fo)
     else
     (let self1 = self\<lparr>curindex := stop\<rparr>
      in case to_int16 val of
        Inl e \<Rightarrow> (Inl e, self1, fo)
      | Inr arr \<Rightarrow>
     (let shp = [nat (stop - start)] @ (if nchans self1 = 2 then [2] else [])
      in if nd_shape arr \<noteq> shp
         then (Inl (ValueError ''assigning array shape %s to slice of shape %s''), self1, fo)
         else
           (case f self1 of
              None \<Rightarrow>
                (Inl (AttributeError (repr ''NoneType'' @ '' object has no attribute ''
                                      @ repr ''seek'')), self1, fo)
            | Some h \<Rightarrow>
                (let off = int (datapos self1) + start * bytes_per_frame self1
                 in if off < 0 then (Inl (IOError ''[Errno 22] Invalid argument''), self1, fo)
                    else (Inr (), self1,
                          file_write (encode (bits_per_samp self1) arr)
                            (file_seek (nat off) fo))))))))"

definition write_samples ::
  "WaveFileWriter \<Rightarrow> pyval \<Rightarrow> pyfile \<Rightarrow> (error + unit) \<times> WaveFileWriter \<times> pyfile" where
  "write_samples self seq fo = setitem self (Slice (Some (curindex self)) None None) seq fo"

section \<open>Sessions\<close>

text \<open>
  A caller's view of a writer: a sequence of method calls, each of which returns or raises
  and leaves the writer and its file in some state. \<open>call\<close> gives the state after one call,
  \<open>calls\<close> after a sequence.
\<close>

datatype writer_call = Call_setitem index pyval | Call_write_samples pyval | Call_close

fun call :: "writer_call \<Rightarrow> WaveFileWriter \<times> pyfile \<Rightarrow> WaveFileWriter \<times> pyfile" where
  "call (Call_setitem slc val) (self, fo) = snd (setitem self slc val fo)"
| "call (Call_write_samples seq) (self, fo) = snd (write_samples self seq fo)"
| "call Call_close (self, fo) = snd (close self fo)"

fun calls :: "writer_call list \<Rightarrow> WaveFileWriter \<times> pyfile \<Rightarrow> WaveFileWriter \<times> pyfile" where
  "calls [] st = st"
| "calls (c # cs) st = calls cs (call c st)"

text \<open>The frame at which a write through the index \<open>slc\<close> begins.\<close>

definition index_start :: "index \<Rightarrow> int option" where
  "index_start slc =
     (case slc of
        Slice start stop step \<Rightarrow> Some (case start of None \<Rightarrow> 0 | Some s \<Rightarrow> s)
      | Index i \<Rightarrow> Some i
      | OtherIndex \<Rightarrow> None)"

text \<open>Opening for reading the file that a writer left: the same bytes, position 0.\<close>

definition reopen :: "pyfile \<Rightarrow> pyfile" where
  "reopen fo = \<lparr>content = content fo, pos = 0, io_log = []\<rparr>"

text \<open>
  The writers used as examples below: the default one (16 bit, mono), a stereo one, and an
  8-bit mono one, each on a new file.
\<close>

definition mono_session :: "(error + WaveFileWriter) \<times> pyfile" where
  "mono_session = WaveFileWriter_init new_file None [(''sample_rate'', 8000)]"

definition mono_writer :: WaveFileWriter where
  "mono_writer = \<lparr>nchans = 1, f = Some FileRef, bits_per_samp = 16, bytes_per_frame = 2,
                   sample_rate = 8000, datapos = 56, curindex = 0\<rparr>"

definition stereo_session :: "(error + WaveFileWriter) \<times> pyfile" where
  "stereo_session = WaveFileWriter_init new_file None [(''nchans'', 2)]"

definition stereo_writer :: WaveFileWriter where
  "stereo_writer = \<lparr>nchans = 2, f = Some FileRef, bits_per_samp = 16, bytes_per_frame = 4,
                     sample_rate = 44100, datapos = 56, curindex = 0\<rparr>"

definition mono8_session :: "(error + WaveFileWriter) \<times> pyfile" where
  "mono8_session = WaveFileWriter_init new_file None [(''bits_per_samp'', 8)]"

definition mono8_writer :: WaveFileWriter where
  "mono8_writer = \<lparr>nchans = 1, f = Some FileRef, bits_per_samp = 8, bytes_per_frame = 1,
                    sample_rate = 44100, datapos = 56, curindex = 0\<rparr>"

definition closed_session :: "(error + unit) \<times> WaveFileWriter \<times> pyfile" where
  "closed_session = close mono_writer (snd mono_session)"

section \<open>Properties of the byte codecs\<close>

lemma length_le_bytes [simp]: "length (le_bytes n x) = n"
  by (induction n arbitrary: x) simp_all

lemma of_char_char_of_int: "of_char (char_of (x::int)) = nat (x mod 256)"
proof -
  have "int (of_char (char_of x)) = of_char (char_of x)" by (rule of_nat_of_char)
  also have "\<dots> = x mod 256" by simp
  finally show ?thesis by simp
qed

lemma le_val_le_bytes_mod: "le_val (le_bytes n x) = nat (x mod 256 ^ n)"
proof (induction n arbitrary: x)
  case 0
  then show ?case by simp
next
  case (Suc n)
  have "x mod (256 * 256 ^ n) = 256 * (x div 256 mod 256 ^ n) + x mod 256"
    by (rule zmod_zmult2_eq) simp
  moreover have "0 \<le> x div 256 mod 256 ^ n" "0 \<le> x mod 256" by simp_all
  ultimately show ?case
    using Suc.IH [of "x div 256"]
    by (simp add: of_char_char_of_int nat_add_distrib nat_mult_distrib)
qed

lemma le_val_le_bytes: "0 \<le> x \<Longrightarrow> x < 256 ^ n \<Longrightarrow> le_val (le_bytes n x) = nat x"
  by (simp add: le_val_le_bytes_mod)

lemma signed16_roundtrip: "is_int16 x \<Longrightarrow> signed16 (le_val (le_bytes 2 x)) = x"
proof (cases "0 \<le> x")
  case True
  assume "is_int16 x"
  with True have "x mod 65536 = x" by (simp add: is_int16_def)
  with True \<open>is_int16 x\<close> show ?thesis
    by (simp add: le_val_le_bytes_mod signed16_def is_int16_def)
next
  case False
  assume "is_int16 x"
  with False have "(x + 65536) mod 65536 = x + 65536"
    by (intro mod_pos_pos_trivial) (simp_all add: is_int16_def)
  then have "x mod 65536 = x + 65536" by simp
  with False \<open>is_int16 x\<close> show ?thesis
    by (simp add: le_val_le_bytes_mod signed16_def is_int16_def)
qed

lemma pad_even_eq: "pad_even n = 2 * ((n + 1) div 2)"
proof -
  have "(k::int) AND NOT 1 = 2 * (k div 2)" for k
    by (rule bit_eqI) (auto simp: bit_simps bit_double_iff simp flip: bit_Suc)
  then show ?thesis unfolding pad_even_def
    by (simp add: nat_mult_distrib nat_div_distrib nat_add_distrib)
qed

lemma int16_items_tostring: "list_all is_int16 xs \<Longrightarrow> int16_items (tostring_int16 xs) = xs"
proof (induction xs)
  case Nil
  then show ?case by (simp add: tostring_int16_def)
next
  case (Cons x xs)
  have "le_bytes 2 x = [char_of x, char_of (x div 256)]" by (simp add: numeral_2_eq_2)
  moreover have "signed16 (le_val (le_bytes 2 x)) = x"
    using Cons.prems by (simp add: signed16_roundtrip)
  ultimately show ?case using Cons by (simp add: tostring_int16_def)
qed

lemma length_tostring_int16 [simp]: "length (tostring_int16 xs) = 2 * length xs"
  by (induction xs) (simp_all add: tostring_int16_def)

lemma fromstring_tostring_int16:
  "list_all is_int16 xs \<Longrightarrow>
   fromstring_int16 (tostring_int16 xs) = Inr \<lparr>nd_shape = [length xs], nd_items = xs\<rparr>"
  by (simp add: fromstring_int16_def int16_items_tostring)

subsection \<open>The 8-bit conversions\<close>

lemma is_int16_clip [simp]: "is_int16 (clip v (-32768) 32767)"
  by (simp add: is_int16_def clip_def)

lemma clip_id: "is_int16 v \<Longrightarrow> clip v (-32768) 32767 = v"
  by (simp add: is_int16_def clip_def)

lemma enc8_range: "0 \<le> enc8 v" "enc8 v < 256"
  by (simp_all add: enc8_def)

lemma dec8_byte: "0 \<le> b \<Longrightarrow> b < 256 \<Longrightarrow> dec8 b = (b - 128) * 256"
  by (simp add: dec8_def wrap16_def)

lemma enc8_shift:
  assumes "is_int16 x"
  shows "enc8 x = wrap16 (x + 128) div 256 + 128"
proof -
  have r: "-32768 \<le> wrap16 (x + 128)" "wrap16 (x + 128) \<le> 32767"
    by (simp_all add: wrap16_def)
  then have "-128 \<le> wrap16 (x + 128) div 256" "wrap16 (x + 128) div 256 \<le> 127"
    by linarith+
  then show ?thesis
    by (simp add: enc8_def drop_bit_eq_div wrap16_def [of "_ div _ + _"])
qed

lemma mod_minus_once: "b \<le> a \<Longrightarrow> a < 2 * b \<Longrightarrow> (a::int) mod b = a - b"
proof -
  assume "b \<le> a" "a < 2 * b"
  then have "(a - b) mod b = a - b" by (intro mod_pos_pos_trivial) simp_all
  then show ?thesis by simp
qed

lemma wrap16_high: "32768 \<le> y \<Longrightarrow> y < 98304 \<Longrightarrow> wrap16 y = y - 65536"
  using mod_minus_once [of 65536 "y + 32768"] by (simp add: wrap16_def)

text \<open>From 32640 on, \<^verbatim>\<open>val+128\<close> overflows 16 bits and the byte is 0.\<close>

lemma enc8_high:
  assumes "is_int16 x" "32640 \<le> x" shows "enc8 x = 0"
proof -
  have "wrap16 (x + 128) = x + 128 - 65536"
    using assms by (intro wrap16_high) (simp_all add: is_int16_def)
  moreover have "(x + 128 - 65536) div 256 = -128" using assms by (simp add: is_int16_def)
  ultimately show ?thesis by (simp add: enc8_shift [OF assms(1)])
qed

lemma enc8_low:
  assumes "is_int16 x" "x < 32640" shows "enc8 x = (x + 128) div 256 + 128"
proof -
  have "wrap16 (x + 128) = x + 128" using assms by (simp add: wrap16_def is_int16_def)
  then show ?thesis by (simp add: enc8_shift [OF assms(1)])
qed

lemma enc8_dec8:
  assumes "0 \<le> b" "b < 256" shows "enc8 (dec8 b) = b"
proof -
  have d: "dec8 b = (b - 128) * 256" using assms by (rule dec8_byte)
  have "enc8 ((b - 128) * 256) = ((b - 128) * 256 + 128) div 256 + 128"
    using assms by (intro enc8_low) (simp_all add: is_int16_def)
  also have "((b - 128) * 256 + 128) div 256 = b - 128" by simp
  finally show ?thesis unfolding d by simp
qed

text \<open>The writer's 16-bit arithmetic gives the byte of the formula on unbounded integers.\<close>

lemma enc8_formula:
  assumes "is_int16 x"
  shows "enc8 x = ((x + 128) div 256 + 128) mod 256"
proof (cases "x < 32640")
  case True
  have "- 128 \<le> (x + 128) div 256" "(x + 128) div 256 \<le> 127"
    using True assms by (simp_all add: is_int16_def)
  then show ?thesis by (simp add: enc8_low [OF assms True])
next
  case False
  then have "(x + 128) div 256 = 128" using assms by (simp add: is_int16_def)
  then show ?thesis using False assms by (simp add: enc8_high)
qed

lemma roundtrip8_exact_iff:
  assumes "is_int16 x" shows "dec8 (enc8 x) = x \<longleftrightarrow> 256 dvd x"
proof (cases "x < 32640")
  case True
  have "dec8 (enc8 x) = (enc8 x - 128) * 256"
    by (intro dec8_byte enc8_range)
  also have "\<dots> = 256 * ((x + 128) div 256)" by (simp add: enc8_low [OF assms True])
  finally have d: "dec8 (enc8 x) = 256 * ((x + 128) div 256)" .
  show ?thesis
  proof
    assume "dec8 (enc8 x) = x"
    with d have "x = 256 * ((x + 128) div 256)" by simp
    then show "256 dvd x" by (rule dvdI)
  next
    assume "256 dvd x"
    then obtain k where "x = 256 * k" ..
    then show "dec8 (enc8 x) = x" using d by simp
  qed
next
  case False
  then have "dec8 (enc8 x) = -32768" using assms by (simp add: enc8_high dec8_byte)
  moreover have "\<not> 256 dvd x"
  proof
    assume "256 dvd x"
    then obtain k where "x = 256 * k" ..
    with False assms have "32640 \<le> 256 * k" "256 * k \<le> 32767"
      by (simp_all add: is_int16_def)
    then show False by presburger
  qed
  ultimately show ?thesis using False by simp
qed

text \<open>
  C5. Encoding a sample to 8 bits, decoding the byte and encoding again gives the same
  byte: for every integer \<open>v\<close>, saturated to 16 bits as the writer does, the byte is that
  of the formula \<open>((v + 128) >> 8) + 128\<close> cut to 8 bits, the decoder maps a byte \<open>b\<close> to
  \<open>(b - 128) * 256\<close>, and the second encoding returns the first byte. The round trip is
  lossy: the decoded value is a multiple of 256, and it is the sample itself only for
  samples that are multiples of 256 (it is not for the sample 1).
\<close>

theorem C5_roundtrip_8bit:
  "enc8 (clip v (-32768) 32767) = ((clip v (-32768) 32767 + 128) div 256 + 128) mod 256
   \<and> dec8 (enc8 (clip v (-32768) 32767)) = (enc8 (clip v (-32768) 32767) - 128) * 256
   \<and> enc8 (dec8 (enc8 (clip v (-32768) 32767))) = enc8 (clip v (-32768) 32767)
   \<and> 256 dvd dec8 (enc8 (clip v (-32768) 32767))
   \<and> (dec8 (enc8 (clip v (-32768) 32767)) = clip v (-32768) 32767)
       = (256 dvd clip v (-32768) 32767)
   \<and> dec8 (enc8 (clip 1 (-32768) 32767)) \<noteq> clip 1 (-32768) 32767"
proof -
  let ?x = "clip v (-32768) 32767"
  have 1: "enc8 ?x = ((?x + 128) div 256 + 128) mod 256"
    by (rule enc8_formula) simp
  have 2: "dec8 (enc8 ?x) = (enc8 ?x - 128) * 256"
    by (intro dec8_byte enc8_range)
  have 3: "enc8 (dec8 (enc8 ?x)) = enc8 ?x"
    by (intro enc8_dec8 enc8_range)
  have 4: "256 dvd dec8 (enc8 ?x)"
    unfolding 2 by simp
  have 5: "(dec8 (enc8 ?x) = ?x) = (256 dvd ?x)"
    by (rule roundtrip8_exact_iff) simp
  have "\<not> 256 dvd (1::int)" by simp
  then have 6: "dec8 (enc8 (clip 1 (-32768) 32767)) \<noteq> clip 1 (-32768) 32767"
    using roundtrip8_exact_iff [of "clip 1 (-32768) 32767"]
    by (simp add: clip_def is_int16_def)
  from 1 2 3 4 5 6 show ?thesis by blast
qed

section \<open>Properties of the file object and the writer\<close>

lemma file_seek_simps [simp]:
  "content (file_seek p fo) = content fo" "pos (file_seek p fo) = p"
  "io_log (file_seek p fo) = io_log fo @ [Op_seek p]"
  by (simp_all add: file_seek_def)

lemma file_read_simps [simp]:
  "fst (file_read n fo) = take n (drop (pos fo) (content fo))"
  "content (snd (file_read n fo)) = content fo"
  "io_log (snd (file_read n fo)) = io_log fo @ [Op_read n]"
  by (simp_all add: file_read_def Let_def)

lemma content_file_write:
  "content (file_write s fo) =
     (if s = [] then content fo
      else take (pos fo) (content fo) @ replicate (pos fo - length (content fo)) (CHR 0x00) @ s
           @ drop (pos fo + length s) (content fo))"
  by (simp add: file_write_def Let_def)

lemma pos_file_write [simp]: "pos (file_write s fo) = pos fo + length s"
  by (simp add: file_write_def Let_def)

lemma mono_session: "fst mono_session = Inr mono_writer"
  by (simp add: mono_session_def mono_writer_def WaveFileWriter_init_def pack_L_def pack_h_def Let_def)

lemma stereo_session: "fst stereo_session = Inr stereo_writer"
  by (simp add: stereo_session_def stereo_writer_def WaveFileWriter_init_def pack_L_def pack_h_def Let_def)

lemma mono8_session: "fst mono8_session = Inr mono8_writer"
  by (simp add: mono8_session_def mono8_writer_def WaveFileWriter_init_def pack_L_def pack_h_def Let_def)

text \<open>
  C1. A rejected write should leave the cursor where it was. It does when the index, the
  size or the order is rejected (\<open>setitem_rejected_index\<close>, \<open>setitem_rejected_size\<close>,
  \<open>setitem_rejected_order\<close> below), but the cursor is assigned before the shape is tested:
  on a new 2-channel writer, storing the two plain samples \<open>[1, 2]\<close> at \<open>[0:2]\<close> (the right
  length, the wrong shape) raises the shape error and leaves the cursor at 2, with nothing
  written.
\<close>

theorem C1_rejected_shape_moves_cursor:
  "fst stereo_session = Inr stereo_writer
   \<and> curindex stereo_writer = 0
   \<and> setitem stereo_writer (Slice (Some 0) (Some 2) None) (PySeq [PyInt 1, PyInt 2])
        (snd stereo_session)
     = (Inl (ValueError ''assigning array shape %s to slice of shape %s''),
        stereo_writer\<lparr>curindex := 2\<rparr>, snd stereo_session)"
proof -
  have "fst stereo_session = Inr stereo_writer" by (rule stereo_session)
  moreover have "setitem stereo_writer (Slice (Some 0) (Some 2) None) (PySeq [PyInt 1, PyInt 2])
        fo
     = (Inl (ValueError ''assigning array shape %s to slice of shape %s''),
        stereo_writer\<lparr>curindex := 2\<rparr>, fo)" for fo
    by (simp add: setitem_def setitem_range_def setitem_stop_def len_def to_int16_def stack_def
        stereo_writer_def)
  ultimately show ?thesis by (simp add: stereo_writer_def)
qed

lemma stack_error:
  "stack as = Inl e \<Longrightarrow> e = ValueError ''setting an array element with a sequence.''"
  by (auto simp: stack_def split: list.splits if_splits)

lemma asarray_error:
  "asarray_int32 v = Inl e \<Longrightarrow>
     e = OverflowError ''Python int too large to convert to C long''
     \<or> e = ValueError ''setting an array element with a sequence.''"
  "asarray_seq vs = Inl e \<Longrightarrow>
     e = OverflowError ''Python int too large to convert to C long''
     \<or> e = ValueError ''setting an array element with a sequence.''"
proof (induction v and vs arbitrary: e and e rule: asarray_int32_asarray_seq.induct)
  case (1 i)
  then show ?case by (simp split: if_splits)
next
  case (2 a)
  then show ?case by simp
next
  case (3 xs)
  then show ?case by (auto split: sum.splits dest: stack_error)
next
  case 4
  then show ?case by simp
next
  case (5 x xs)
  then show ?case by (auto split: sum.splits)
qed

lemma to_int16_error:
  "to_int16 v = Inl e \<Longrightarrow>
     e = OverflowError ''Python int too large to convert to C long''
     \<or> e = ValueError ''setting an array element with a sequence.''"
  by (auto simp: to_int16_def split: pyval.splits sum.splits if_splits
      dest: stack_error asarray_error(2))

lemma setitem_range_error:
  "setitem_range slc val = Inl e \<Longrightarrow>
     e = IndexError ''slice step must be 1'' \<or> e = IndexError ''bad index''
     \<or> e = IndexError ''invalid slice parameters''"
  by (auto simp: setitem_range_def split: index.splits if_splits sum.splits)

lemma len_error:
  "len v = Inl e \<Longrightarrow> (\<exists>m. e = TypeError m)"
  by (auto simp: len_def split: pyval.splits list.splits)

lemma len_nonneg: "len v = Inr n \<Longrightarrow> 0 \<le> n"
  by (auto simp: len_def split: pyval.splits list.splits)

lemma setitem_stop_error:
  "setitem_stop start stop0 v = Inl e \<Longrightarrow>
     (\<exists>m. e = TypeError m) \<or> e = ValueError ''size mismatch in slice assignment''"
  by (auto simp: setitem_stop_def split: option.splits sum.splits if_splits dest: len_error)

lemma setitem_range_start:
  "setitem_range slc val = Inr (start, stop0, v) \<Longrightarrow>
     index_start slc = Some start \<and> 0 \<le> start \<and> (\<forall>st. stop0 = Some st \<longrightarrow> start \<le> st)"
  by (auto simp: setitem_range_def index_start_def split: index.splits if_splits option.splits)

lemma setitem_stop_ge:
  "setitem_range slc val = Inr (start, stop0, v) \<Longrightarrow> setitem_stop start stop0 v = Inr stop
     \<Longrightarrow> start \<le> stop \<and> len v = Inr (stop - start)"
  by (auto simp: setitem_stop_def split: option.splits sum.splits if_splits
      dest: len_nonneg setitem_range_start)

text \<open>The three rejections that come before the cursor is touched.\<close>

lemma setitem_rejected_index:
  "setitem_range slc val = Inl e \<Longrightarrow> setitem self slc val fo = (Inl e, self, fo)"
  by (simp add: setitem_def)

lemma setitem_rejected_size:
  "setitem_range slc val = Inr (start, stop0, v) \<Longrightarrow> setitem_stop start stop0 v = Inl e
     \<Longrightarrow> setitem self slc val fo = (Inl e, self, fo)"
  by (simp add: setitem_def)

lemma setitem_rejected_order:
  "setitem_range slc val = Inr (start, stop0, v) \<Longrightarrow> setitem_stop start stop0 v = Inr stop
     \<Longrightarrow> curindex self \<noteq> start
     \<Longrightarrow> setitem self slc val fo
           = (Inl (ValueError ''WaveFileWriter assignments must be in seq''), self, fo)"
  by (simp add: setitem_def)

text \<open>Past the ordering check the cursor is \<open>stop\<close>, whatever happens next.\<close>

lemma setitem_in_sequence:
  "setitem_range slc val = Inr (start, stop0, v) \<Longrightarrow> setitem_stop start stop0 v = Inr stop
     \<Longrightarrow> curindex self = start
     \<Longrightarrow> fst (snd (setitem self slc val fo)) = self\<lparr>curindex := stop\<rparr>"
  by (auto simp: setitem_def Let_def split: sum.splits option.splits)

lemma setitem_accepted:
  assumes "setitem self slc val fo = (Inr (), self', fo')"
  shows "\<exists>stop0 v. setitem_range slc val = Inr (curindex self, stop0, v)
           \<and> setitem_stop (curindex self) stop0 v = Inr (curindex self')"
  using assms
  by (auto simp: setitem_def Let_def split: sum.splits option.splits if_splits prod.splits)

lemma setitem_cursor_mono: "curindex self \<le> curindex (fst (snd (setitem self slc val fo)))"
proof (cases "setitem_range slc val")
  case (Inl e)
  then show ?thesis by (simp add: setitem_rejected_index)
next
  case (Inr t)
  obtain start stop0 v where t: "t = (start, stop0, v)" by (cases t)
  show ?thesis
  proof (cases "setitem_stop start stop0 v")
    case (Inl e)
    with Inr t show ?thesis by (simp add: setitem_rejected_size)
  next
    case r: (Inr stop)
    show ?thesis
    proof (cases "curindex self = start")
      case True
      with Inr t r have "fst (snd (setitem self slc val fo)) = self\<lparr>curindex := stop\<rparr>"
        by (simp add: setitem_in_sequence)
      moreover have "start \<le> stop" using Inr t r setitem_stop_ge by blast
      ultimately show ?thesis using True by simp
    next
      case False
      with Inr t r show ?thesis by (simp add: setitem_rejected_order)
    qed
  qed
qed

lemma close_cursor: "curindex (fst (snd (close self fo))) = curindex self"
  by (auto simp: close_def Let_def split: option.splits sum.splits)

lemma call_cursor_mono: "curindex (fst st) \<le> curindex (fst (call c st))"
  by (cases c; cases st) (simp_all add: setitem_cursor_mono write_samples_def close_cursor)

lemma calls_cursor_mono: "curindex (fst st) \<le> curindex (fst (calls cs st))"
proof (induction cs arbitrary: st)
  case Nil
  then show ?case by simp
next
  case (Cons c cs)
  have "curindex (fst st) \<le> curindex (fst (call c st))" by (rule call_cursor_mono)
  also have "\<dots> \<le> curindex (fst (calls cs (call c st)))" by (rule Cons.IH)
  finally show ?case by simp
qed

lemma init_cursor:
  "WaveFileWriter_init fout refobj kw = (Inr w, fo) \<Longrightarrow>
     curindex w = 0 \<and> f w = Some FileRef"
  by (auto simp: WaveFileWriter_init_def Let_def split: if_splits sum.splits)

text \<open>
  C2, as amended. A new writer has cursor 0. A write that is accepted begins exactly at the
  cursor and moves the cursor to its stop, which is not before its start. A write whose
  index and size pass their checks and whose start differs from the cursor raises the
  ordering error and changes neither writer nor file. Over any sequence of calls the cursor
  never decreases.
\<close>

theorem C2_writes_in_sequence:
  "(WaveFileWriter_init fout refobj kw = (Inr w0, fo0) \<longrightarrow> curindex w0 = 0)
   \<and> (setitem self slc val fo = (Inr (), self', fo') \<longrightarrow>
        index_start slc = Some (curindex self)
        \<and> (\<exists>stop0 v. setitem_range slc val = Inr (curindex self, stop0, v)
               \<and> setitem_stop (curindex self) stop0 v = Inr (curindex self'))
        \<and> curindex self \<le> curindex self')
   \<and> (setitem_range slc2 val2 = Inr (start, stop0, v) \<and> setitem_stop start stop0 v = Inr stop
        \<and> start \<noteq> curindex self2 \<longrightarrow>
        setitem self2 slc2 val2 fo2
          = (Inl (ValueError ''WaveFileWriter assignments must be in seq''), self2, fo2))
   \<and> curindex (fst st) \<le> curindex (fst (calls cs st))"
proof (intro conjI impI)
  assume "WaveFileWriter_init fout refobj kw = (Inr w0, fo0)"
  then show "curindex w0 = 0" by (simp add: init_cursor)
next
  assume a: "setitem self slc val fo = (Inr (), self', fo')"
  then obtain stop0 v where r: "setitem_range slc val = Inr (curindex self, stop0, v)"
    and s: "setitem_stop (curindex self) stop0 v = Inr (curindex self')"
    using setitem_accepted by blast
  from r show "index_start slc = Some (curindex self)" by (simp add: setitem_range_start)
  from r s show "\<exists>stop0 v. setitem_range slc val = Inr (curindex self, stop0, v)
               \<and> setitem_stop (curindex self) stop0 v = Inr (curindex self')" by blast
  from r s show "curindex self \<le> curindex self'" using setitem_stop_ge by blast
next
  assume "setitem_range slc2 val2 = Inr (start, stop0, v) \<and> setitem_stop start stop0 v = Inr stop
        \<and> start \<noteq> curindex self2"
  then show "setitem self2 slc2 val2 fo2
          = (Inl (ValueError ''WaveFileWriter assignments must be in seq''), self2, fo2)"
    by (simp add: setitem_rejected_order)
next
  show "curindex (fst st) \<le> curindex (fst (calls cs st))" by (rule calls_cursor_mono)
qed

lemma mono_write_0_2:
  "setitem mono_writer (Slice (Some 0) (Some 2) None) (PySeq [PyInt 100, PyInt 200]) fo
   = (Inr (), mono_writer\<lparr>curindex := 2\<rparr>,
      file_write (encode 16 \<lparr>nd_shape = [2], nd_items = [100, 200]\<rparr>) (file_seek 56 fo))"
  by (simp add: setitem_def setitem_range_def setitem_stop_def len_def to_int16_def stack_def
      mono_writer_def clip_def numeral_2_eq_2)

theorem C2_writes_in_sequence_witness:
  "fst mono_session = Inr mono_writer \<and> curindex mono_writer = 0
   \<and> fst (setitem mono_writer (Slice (Some 0) (Some 2) None) (PySeq [PyInt 100, PyInt 200])
            (snd mono_session)) = Inr ()
   \<and> index_start (Slice (Some 0) (Some 2) None) = Some (curindex mono_writer)
   \<and> curindex (fst (snd (setitem mono_writer (Slice (Some 0) (Some 2) None)
                              (PySeq [PyInt 100, PyInt 200]) (snd mono_session)))) = 2
   \<and> setitem_range (Slice (Some 140) (Some 160) None) (PySeq (replicate 20 (PyInt 0)))
       = Inr (140, Some 160, PySeq (replicate 20 (PyInt 0)))
   \<and> setitem_stop 140 (Some 160) (PySeq (replicate 20 (PyInt 0))) = Inr 160
   \<and> setitem (mono_writer\<lparr>curindex := 150\<rparr>) (Slice (Some 140) (Some 160) None)
        (PySeq (replicate 20 (PyInt 0))) (snd mono_session)
       = (Inl (ValueError ''WaveFileWriter assignments must be in seq''),
          mono_writer\<lparr>curindex := 150\<rparr>, snd mono_session)
   \<and> curindex (fst (mono_writer, snd mono_session))
       \<le> curindex (fst (calls [Call_setitem (Slice (Some 0) (Some 2) None)
                                   (PySeq [PyInt 100, PyInt 200]), Call_close]
                          (mono_writer, snd mono_session)))"
proof -
  let ?fo = "snd mono_session"
  let ?slc = "Slice (Some 0) (Some 2) None" and ?val = "PySeq [PyInt 100, PyInt 200]"
  let ?slc2 = "Slice (Some 140) (Some 160) None" and ?val2 = "PySeq (replicate 20 (PyInt 0))"
  let ?fo' = "file_write (encode 16 \<lparr>nd_shape = [2], nd_items = [100, 200]\<rparr>) (file_seek 56 ?fo)"
  have i: "WaveFileWriter_init new_file None [(''sample_rate'', 8000)] = (Inr mono_writer, ?fo)"
    using mono_session by (simp add: prod_eq_iff flip: mono_session_def)
  have a: "setitem mono_writer ?slc ?val ?fo = (Inr (), mono_writer\<lparr>curindex := 2\<rparr>, ?fo')"
    by (rule mono_write_0_2)
  have r: "setitem_range ?slc2 ?val2 = Inr (140, Some 160, ?val2)"
    by (simp add: setitem_range_def)
  have s: "setitem_stop 140 (Some 160) ?val2 = Inr 160"
    by (simp add: setitem_stop_def len_def)
  have n: "(140::int) \<noteq> curindex (mono_writer\<lparr>curindex := 150\<rparr>)" by simp
  from C2_writes_in_sequence [of new_file None "[(''sample_rate'', 8000)]" mono_writer ?fo
      mono_writer ?slc ?val ?fo "mono_writer\<lparr>curindex := 2\<rparr>" ?fo'
      ?slc2 ?val2 140 "Some 160" ?val2 160 "mono_writer\<lparr>curindex := 150\<rparr>" ?fo
      "(mono_writer, ?fo)"
      "[Call_setitem ?slc ?val, Call_close]"] i a r s n
  show ?thesis by (simp add: mono_session mono_writer_def)
qed

text \<open>
  C2 as stated fails: on a new writer (cursor 0) a write at index \<open>-1\<close> raises the index
  error, and a write of three samples to \<open>[5:10]\<close> raises the size error; neither raises the
  ordering error, although neither starts at the cursor.
\<close>

theorem C2_order_error_counterexample:
  "curindex mono_writer = 0
   \<and> index_start (Index (-1)) = Some (-1)
   \<and> setitem mono_writer (Index (-1)) (PyInt 5) (snd mono_session)
       = (Inl (IndexError ''invalid slice parameters''), mono_writer, snd mono_session)
   \<and> index_start (Slice (Some 5) (Some 10) None) = Some 5
   \<and> setitem mono_writer (Slice (Some 5) (Some 10) None) (PySeq [PyInt 1, PyInt 2, PyInt 3])
        (snd mono_session)
       = (Inl (ValueError ''size mismatch in slice assignment''), mono_writer, snd mono_session)"
  by (simp add: mono_writer_def index_start_def setitem_def setitem_range_def setitem_stop_def
      len_def)

text \<open>
  After a write rejected for its shape the cursor has moved: on a 2-channel writer the
  rejected \<open>[0:2]\<close> is followed by an accepted write at 2, while a first write at 0 would
  have been accepted as well.
\<close>
lemma accepted_after_rejected_shape:
  "fst (setitem stereo_writer (Slice (Some 0) (Some 2) None) (PySeq [PyInt 1, PyInt 2]) fo)
     = Inl (ValueError ''assigning array shape %s to slice of shape %s'')
   \<and> fst (setitem (stereo_writer\<lparr>curindex := 2\<rparr>) (Slice (Some 2) (Some 3) None)
             (PySeq [PySeq [PyInt 1, PyInt 2]]) fo) = Inr ()
   \<and> fst (setitem stereo_writer (Slice (Some 0) (Some 1) None)
             (PySeq [PySeq [PyInt 1, PyInt 2]]) fo) = Inr ()"
  by (simp add: setitem_def setitem_range_def setitem_stop_def len_def to_int16_def stack_def
      stereo_writer_def clip_def)

lemma close_closed: "f self = None \<Longrightarrow> close self fo = (Inr (), self, fo)"
  by (simp add: close_def)

lemma close_returns_closed:
  "close self fo = (Inr (), self', fo') \<Longrightarrow> f self' = None"
  by (auto simp: close_def Let_def split: option.splits sum.splits if_splits)

lemma setitem_closed:
  assumes "f self = None"
  shows "(\<exists>e. fst (setitem self slc val fo) = Inl e \<and> e \<noteq> ValueError ''writer is closed'')
         \<and> snd (snd (setitem self slc val fo)) = fo"
proof (cases "setitem_range slc val")
  case (Inl e)
  then show ?thesis using setitem_range_error [OF Inl] by (auto simp: setitem_rejected_index)
next
  case (Inr t)
  obtain start stop0 v where t: "t = (start, stop0, v)" by (cases t)
  show ?thesis
  proof (cases "setitem_stop start stop0 v")
    case (Inl e)
    then show ?thesis using Inr t setitem_stop_error [OF Inl]
      by (auto simp: setitem_rejected_size)
  next
    case r: (Inr stop)
    show ?thesis
    proof (cases "curindex self = start")
      case False
      with Inr t r show ?thesis by (simp add: setitem_rejected_order)
    next
      case True
      show ?thesis
      proof (cases "to_int16 v")
        case (Inl e)
        then show ?thesis using Inr t r True to_int16_error [OF Inl]
          by (auto simp: setitem_def)
      next
        case a: (Inr arr)
        then show ?thesis using Inr t r True assms
          by (simp add: setitem_def Let_def repr_def)
      qed
    qed
  qed
qed

text \<open>
  C3, as amended. A \<open>close()\<close> that returns leaves the writer closed, and closing a closed
  writer changes neither the writer nor the file. On a closed writer every write, by index
  or by \<open>write_samples\<close>, raises and leaves the file as it was; the error is never
  \<^verbatim>\<open>ValueError("writer is closed")\<close>, which the module does not contain.
\<close>

theorem C3_close_then_write:
  "(close self fo = (Inr (), self', fo') \<longrightarrow>
      f self' = None \<and> close self' fo2 = (Inr (), self', fo2))
   \<and> (f w = None \<longrightarrow>
        (\<exists>e. fst (setitem w slc val fo3) = Inl e \<and> e \<noteq> ValueError ''writer is closed'')
        \<and> snd (snd (setitem w slc val fo3)) = fo3
        \<and> (\<exists>e. fst (write_samples w seq fo3) = Inl e \<and> e \<noteq> ValueError ''writer is closed'')
        \<and> snd (snd (write_samples w seq fo3)) = fo3)"
proof (intro conjI impI)
  assume c: "close self fo = (Inr (), self', fo')"
  then show "f self' = None" by (rule close_returns_closed)
  then show "close self' fo2 = (Inr (), self', fo2)" by (rule close_closed)
next
  assume "f w = None"
  then show "\<exists>e. fst (setitem w slc val fo3) = Inl e \<and> e \<noteq> ValueError ''writer is closed''"
    using setitem_closed by blast
next
  assume "f w = None"
  then show "snd (snd (setitem w slc val fo3)) = fo3" using setitem_closed by blast
next
  assume "f w = None"
  then show "\<exists>e. fst (write_samples w seq fo3) = Inl e \<and> e \<noteq> ValueError ''writer is closed''"
    unfolding write_samples_def using setitem_closed by blast
next
  assume "f w = None"
  then show "snd (snd (write_samples w seq fo3)) = fo3"
    unfolding write_samples_def using setitem_closed by blast
qed

lemma closed_session:
  "fst closed_session = Inr ()" "fst (snd closed_session) = mono_writer\<lparr>f := None\<rparr>"
  by (simp_all add: closed_session_def close_def mono_writer_def pack_L_def Let_def)

lemma closed_write:
  "setitem (mono_writer\<lparr>f := None\<rparr>) (Slice (Some 0) None None) (PySeq [PyInt 1]) fo
    = (Inl (AttributeError (repr ''NoneType'' @ '' object has no attribute '' @ repr ''seek'')),
       mono_writer\<lparr>f := None, curindex := 1\<rparr>, fo)"
  by (simp add: setitem_def setitem_range_def setitem_stop_def len_def to_int16_def stack_def
      mono_writer_def clip_def)

theorem C3_close_then_write_witness:
  "fst (close mono_writer (snd mono_session)) = Inr ()
   \<and> f (fst (snd closed_session)) = None
   \<and> close (fst (snd closed_session)) (snd (snd closed_session))
       = (Inr (), fst (snd closed_session), snd (snd closed_session))
   \<and> (\<exists>e. fst (setitem (fst (snd closed_session)) (Slice (Some 0) None None) (PySeq [PyInt 1])
                 (snd (snd closed_session))) = Inl e
          \<and> e \<noteq> ValueError ''writer is closed'')
   \<and> snd (snd (setitem (fst (snd closed_session)) (Slice (Some 0) None None) (PySeq [PyInt 1])
                  (snd (snd closed_session)))) = snd (snd closed_session)
   \<and> (\<exists>e. fst (write_samples (fst (snd closed_session)) (PySeq [PyInt 1])
                 (snd (snd closed_session))) = Inl e
          \<and> e \<noteq> ValueError ''writer is closed'')"
proof -
  let ?w = "fst (snd closed_session)" and ?fo = "snd (snd closed_session)"
  have c: "close mono_writer (snd mono_session) = (Inr (), ?w, ?fo)"
    using closed_session(1) by (simp add: prod_eq_iff flip: closed_session_def)
  have n: "f ?w = None" by (simp add: closed_session(2))
  from C3_close_then_write [of mono_writer "snd mono_session" ?w ?fo ?fo ?w
      "Slice (Some 0) None None" "PySeq [PyInt 1]" ?fo "PySeq [PyInt 1]"] c n
  show ?thesis by simp
qed

text \<open>
  C3 as stated fails: after \<open>close()\<close> on a new writer, appending one sample at the cursor
  passes every check and fails on \<^verbatim>\<open>self.f.seek\<close> with an \<^verbatim>\<open>AttributeError\<close>, the cursor
  already moved to 1.
\<close>

theorem C3_closed_write_counterexample:
  "fst closed_session = Inr ()
   \<and> f (fst (snd closed_session)) = None
   \<and> setitem (fst (snd closed_session)) (Slice (Some 0) None None) (PySeq [PyInt 1])
        (snd (snd closed_session))
       = (Inl (AttributeError (repr ''NoneType'' @ '' object has no attribute '' @ repr ''seek'')),
          (fst (snd closed_session))\<lparr>curindex := 1\<rparr>, snd (snd closed_session))
   \<and> AttributeError (repr ''NoneType'' @ '' object has no attribute '' @ repr ''seek'')
       \<noteq> ValueError ''writer is closed''"
  by (simp add: closed_session closed_write)

end
